theory Spec2Isabelle
  imports
    Complex_Main
    "HOL-Library.Char_ord"
    "HOL-Library.List_Lexorder"
    "HOL-Library.Sublist"
begin

section \<open>Python strings\<close>

text \<open>
  Strings are lists of characters. The dataset and the credentials are ASCII, so
  \<open>str.lower\<close> maps the letters \<open>A\<close>..\<open>Z\<close> to \<open>a\<close>..\<open>z\<close> and leaves every other
  character alone, and \<open>str.strip\<close> removes the ASCII whitespace characters
  (tab, line feed, vertical tab, form feed, carriage return, the four separators
  28..31 and space) from both ends.
\<close>

definition lower_table :: "(char \<times> char) list" where
  "lower_table = zip ''ABCDEFGHIJKLMNOPQRSTUVWXYZ'' ''abcdefghijklmnopqrstuvwxyz''"

definition lower_char :: "char \<Rightarrow> char" where
  "lower_char c = (case map_of lower_table c of None \<Rightarrow> c | Some l \<Rightarrow> l)"

definition lower :: "string \<Rightarrow> string" where
  "lower s = map lower_char s"

definition is_space :: "char \<Rightarrow> bool" where
  "is_space c = ((of_char c :: nat) \<in> {9, 10, 11, 12, 13, 28, 29, 30, 31, 32})"

definition strip :: "string \<Rightarrow> string" where
  "strip s = rev (dropWhile is_space (rev (dropWhile is_space s)))"

text \<open>
  \<open>s.split(sep)\<close> for a one-character separator: the pieces between the separators,
  empty pieces kept, so the result always has one piece more than \<open>s\<close> has separators.
\<close>

fun split_on :: "char \<Rightarrow> string \<Rightarrow> string list" where
  "split_on sep [] = [[]]"
| "split_on sep (c # cs) =
     (if c = sep then [] # split_on sep cs
      else (case split_on sep cs of
              [] \<Rightarrow> [[c]]
            | piece # pieces \<Rightarrow> (c # piece) # pieces))"

section \<open>The database module\<close>

text \<open>
  A row of the spreadsheet: the columns \<open>Critical Mineral\<close>,
  \<open>Primary African Producing Countries\<close> and \<open>Key Uses (Criticality)\<close>.
\<close>

record raw_row =
  critical_mineral :: string
  producing_countries :: string
  key_uses :: string

text \<open>
  The dictionary written to \<open>minerals.json\<close>. The key \<open>id\<close> is the field \<open>record_id\<close>
  here (\<open>id\<close> is the identity function of HOL).
\<close>

record mineral_record =
  record_id :: string
  mineral_name :: string
  country :: string
  uses :: string
  year :: int
  production_volume :: int
  reserves :: int
  price :: int
  unit :: string
  created_at :: string

text \<open>
  The dictionary written to \<open>deposits.json\<close>; \<open>country\<close> and \<open>reserves\<close> are the fields
  \<open>deposit_country\<close> and \<open>deposit_reserves\<close>, since a field name belongs to one record
  type. Latitude and longitude are the decimal literals of the table; nothing is
  computed from them.
\<close>

record deposit =
  deposit_id :: string
  mineral :: string
  location_name :: string
  deposit_country :: string
  latitude :: real
  longitude :: real
  deposit_reserves :: int
  annual_production :: int
  status :: string

text \<open>
  \<open>uuid.uuid4()\<close> and \<open>datetime.now().isoformat()\<close> are read from the environment:
  \<open>uuid4 k\<close> and \<open>now k\<close> are what the calls return while the \<open>k\<close>-th entry of the
  list under construction is built.
\<close>

record environment =
  uuid4 :: "nat \<Rightarrow> string"
  now :: "nat \<Rightarrow> string"

definition production_data :: "(string \<times> (string \<times> int) list) list" where
  "production_data =
     [(''Cobalt'', [(''DRC'', 130000), (''Zambia'', 5000), (''Morocco'', 2000)]),
      (''Manganese'', [(''South Africa'', 6200000), (''Gabon'', 7000000), (''Ghana'', 500000)]),
      (''Lithium'', [(''Zimbabwe'', 1200), (''DRC'', 800), (''Mali'', 300)]),
      (''Copper'', [(''DRC'', 1500000), (''Zambia'', 800000), (''South Africa'', 50000)]),
      (''Graphite (Natural)'', [(''Mozambique'', 30000), (''Madagascar'', 50000), (''Tanzania'', 15000)]),
      (''Chromium'', [(''South Africa'', 18000000), (''Zimbabwe'', 900000)])]"

definition estimate_production :: "string \<Rightarrow> string \<Rightarrow> int" where
  "estimate_production mineral_nm country_nm =
     (case map_of production_data mineral_nm of
        None \<Rightarrow> 10000
      | Some by_country \<Rightarrow>
          (case map_of by_country country_nm of
             None \<Rightarrow> 10000
           | Some volume \<Rightarrow> volume))"

definition estimate_reserves :: "string \<Rightarrow> string \<Rightarrow> int" where
  "estimate_reserves mineral_nm country_nm =
     (let production = estimate_production mineral_nm country_nm in production * 75)"

definition prices :: "(string \<times> int) list" where
  "prices =
     [(''Cobalt'', 32000),
      (''Platinum-Group Metals (PGMs)'', 850000),
      (''Manganese'', 1800),
      (''Bauxite (for Aluminum)'', 50),
      (''Graphite (Natural)'', 1200),
      (''Lithium'', 25000),
      (''Copper'', 8500),
      (''Nickel'', 18000),
      (''Chromium'', 450),
      (''Uranium'', 140000),
      (''Rare Earth Elements (REEs)'', 75000)]"

definition estimate_price :: "string \<Rightarrow> int" where
  "estimate_price mineral_nm =
     (case map_of prices mineral_nm of None \<Rightarrow> 5000 | Some p \<Rightarrow> p)"

subsection \<open>Loading the spreadsheet\<close>

text \<open>
  The body of the inner loop of \<open>load_excel_data\<close>: the record appended for one entry
  of \<open>countries\<close>, as the \<open>k\<close>-th record of \<open>minerals_data\<close>.
\<close>

definition mineral_record_of :: "environment \<Rightarrow> nat \<Rightarrow> raw_row \<Rightarrow> string \<Rightarrow> mineral_record" where
  "mineral_record_of env k row country_tok =
     (let mineral_nm = critical_mineral row;
          clean_country = strip (hd (split_on CHR ''('' country_tok))
      in \<lparr>record_id = uuid4 env k,
          mineral_name = mineral_nm,
          country = clean_country,
          uses = key_uses row,
          year = 2024,
          production_volume = estimate_production mineral_nm clean_country,
          reserves = estimate_reserves mineral_nm clean_country,
          price = estimate_price mineral_nm,
          unit = ''tonnes'',
          created_at = now env k\<rparr>)"

text \<open>\<open>for country in countries: ... minerals_data.append(mineral_record)\<close>\<close>

fun country_loop ::
  "environment \<Rightarrow> raw_row \<Rightarrow> string list \<Rightarrow> mineral_record list \<Rightarrow> mineral_record list" where
  "country_loop env row [] minerals_data = minerals_data"
| "country_loop env row (c # cs) minerals_data =
     country_loop env row cs
       (minerals_data @ [mineral_record_of env (length minerals_data) row c])"

text \<open>\<open>for index, row in df.iterrows(): countries = [c.strip() for c in countries_str.split(',')] ...\<close>\<close>

fun row_loop :: "environment \<Rightarrow> raw_row list \<Rightarrow> mineral_record list \<Rightarrow> mineral_record list" where
  "row_loop env [] minerals_data = minerals_data"
| "row_loop env (row # rows) minerals_data =
     (let countries = map strip (split_on CHR '','' (producing_countries row))
      in row_loop env rows (country_loop env row countries minerals_data))"

text \<open>
  \<open>load_excel_data\<close> on a spreadsheet that was read: the list it writes to
  \<open>minerals.json\<close>.
\<close>

definition load_excel_data :: "environment \<Rightarrow> raw_row list \<Rightarrow> mineral_record list" where
  "load_excel_data env df = row_loop env df []"

subsection \<open>Deposits\<close>

definition country_coords :: "(string \<times> real \<times> real) list" where
  "country_coords =
     [(''DRC'', -4.0, 23.0),
      (''South Africa'', -29.0, 25.0),
      (''Zimbabwe'', -19.0, 29.8),
      (''Zambia'', -13.1, 27.8),
      (''Mozambique'', -18.6, 35.5),
      (''Madagascar'', -19.0, 46.3),
      (''Tanzania'', -6.3, 34.8),
      (''Ghana'', 7.9, -1.0),
      (''Guinea'', 9.9, -9.6),
      (''Namibia'', -22.5, 17.0),
      (''Gabon'', -0.8, 11.6),
      (''Niger'', 17.6, 8.0),
      (''Morocco'', 31.7, -7.0)]"

definition first_country_of :: "string \<Rightarrow> string" where
  "first_country_of countries_str =
     strip (hd (split_on CHR ''('' (hd (split_on CHR '','' countries_str))))"

text \<open>\<open>for index, row in df.iterrows(): ... if first_country in country_coords: ... deposits.append(deposit)\<close>\<close>

fun deposit_loop :: "environment \<Rightarrow> raw_row list \<Rightarrow> deposit list \<Rightarrow> deposit list" where
  "deposit_loop env [] deposits = deposits"
| "deposit_loop env (row # rows) deposits =
     (let mineral_nm = critical_mineral row;
          first_country = first_country_of (producing_countries row)
      in case map_of country_coords first_country of
           None \<Rightarrow> deposit_loop env rows deposits
         | Some coords \<Rightarrow>
             deposit_loop env rows
               (deposits @
                [\<lparr>deposit_id = uuid4 env (length deposits),
                  mineral = mineral_nm,
                  location_name = mineral_nm @ '' Deposit - '' @ first_country,
                  deposit_country = first_country,
                  latitude = fst coords,
                  longitude = snd coords,
                  deposit_reserves = estimate_reserves mineral_nm first_country,
                  annual_production = estimate_production mineral_nm first_country,
                  status = ''Active''\<rparr>]))"

definition create_sample_deposits :: "environment \<Rightarrow> raw_row list \<Rightarrow> deposit list" where
  "create_sample_deposits env df = deposit_loop env df []"

subsection \<open>Queries\<close>

text \<open>
  The query methods read \<open>minerals.json\<close> through \<open>get_all_minerals\<close>; below, the
  argument \<open>minerals\<close> is the list that call returns.
\<close>

definition get_unique_countries :: "mineral_record list \<Rightarrow> string list" where
  "get_unique_countries minerals = sort (remdups (map country minerals))"

definition count_countries :: "mineral_record list \<Rightarrow> nat" where
  "count_countries minerals = length (get_unique_countries minerals)"

text \<open>
  The \<open>filters\<close> dictionary: a key is absent (\<open>None\<close>) or carries a string. The
  argument of \<open>search_minerals\<close> is optional (\<open>filters=None\<close>).
\<close>

record filters =
  f_mineral_name :: "string option"
  f_country :: "string option"

text \<open>
  \<open>if 'k' in filters and filters['k']: if mineral['k'].lower() != filters['k'].lower(): match = False\<close>:
  the test that sets \<open>match\<close> to \<open>False\<close>. The empty string is falsy.
\<close>

definition field_mismatch :: "string option \<Rightarrow> string \<Rightarrow> bool" where
  "field_mismatch wanted actual =
     (case wanted of
        None \<Rightarrow> False
      | Some v \<Rightarrow> v \<noteq> [] \<and> lower actual \<noteq> lower v)"

fun search_loop :: "filters \<Rightarrow> mineral_record list \<Rightarrow> mineral_record list \<Rightarrow> mineral_record list" where
  "search_loop flt [] results = results"
| "search_loop flt (m # ms) results =
     (let match = True;
          match = (if field_mismatch (f_mineral_name flt) (mineral_name m) then False else match);
          match = (if field_mismatch (f_country flt) (country m) then False else match)
      in search_loop flt ms (if match then results @ [m] else results))"

text \<open>\<open>if not filters: return minerals\<close> holds for \<open>None\<close> and for the empty dictionary.\<close>

definition search_minerals :: "mineral_record list \<Rightarrow> filters option \<Rightarrow> mineral_record list" where
  "search_minerals minerals fopt =
     (case fopt of
        None \<Rightarrow> minerals
      | Some flt \<Rightarrow>
          if f_mineral_name flt = None \<and> f_country flt = None then minerals
          else search_loop flt minerals [])"

section \<open>The analytics module\<close>

text \<open>
  \<open>country_production = defaultdict(int)\<close> keeps its keys in insertion order: an
  association list. \<open>country_production[k] += v\<close> adds to the entry of \<open>k\<close>, or appends
  the entry \<open>0 + v\<close> when \<open>k\<close> is new.
\<close>

fun add_to :: "string \<Rightarrow> int \<Rightarrow> (string \<times> int) list \<Rightarrow> (string \<times> int) list" where
  "add_to k v [] = [(k, 0 + v)]"
| "add_to k v ((k', t) # kvs) =
     (if k' = k then (k', t + v) # kvs else (k', t) # add_to k v kvs)"

text \<open>\<open>for m in minerals: country_production[m['country']] += m['production_volume']\<close>\<close>

fun aggregate :: "mineral_record list \<Rightarrow> (string \<times> int) list \<Rightarrow> (string \<times> int) list" where
  "aggregate [] country_production = country_production"
| "aggregate (m # ms) country_production =
     aggregate ms (add_to (country m) (production_volume m) country_production)"

text \<open>
  The grouping this loop is compared with, in the words of the specification: the sum of
  \<open>productionVolume\<close> grouped by \<open>country\<close>. The countries come in the order of their
  first occurrence, each with the sum of the production volumes of its records.
\<close>

definition country_total :: "mineral_record list \<Rightarrow> string \<Rightarrow> int" where
  "country_total ms c = sum_list (map production_volume (filter (\<lambda>m. country m = c) ms))"

definition grouped_by_country :: "mineral_record list \<Rightarrow> (string \<times> int) list" where
  "grouped_by_country ms =
     map (\<lambda>c. (c, country_total ms c)) (rev (remdups (rev (map country ms))))"

text \<open>
  \<open>sorted(items, key=lambda x: x[1], reverse=True)\<close>: Python's sort is stable, also
  with \<open>reverse=True\<close>, so the items come out by descending value and items of equal
  value keep the order they had. That is the stable insertion sort on the negated value.
\<close>

definition sorted_by_value_reversed :: "(string \<times> int) list \<Rightarrow> (string \<times> int) list" where
  "sorted_by_value_reversed items = sort_key (\<lambda>x. - snd x) items"

text \<open>
  The chart functions return HTML for the series \<open>sorted_data\<close>; the model returns
  \<open>sorted_data\<close> itself, and \<open>None\<close> where the function returns \<open>None\<close>.
\<close>

definition generate_production_by_country ::
  "mineral_record list \<Rightarrow> string \<Rightarrow> (string \<times> int) list option" where
  "generate_production_by_country all_minerals mineral_nm =
     (let minerals =
            search_minerals all_minerals (Some \<lparr>f_mineral_name = Some mineral_nm, f_country = None\<rparr>)
      in if minerals = [] then None
         else Some (sorted_by_value_reversed (aggregate minerals [])))"

text \<open>
  \<open>xs[:limit]\<close> for an integer \<open>limit\<close>: a negative bound counts from the end of the list.
\<close>

definition slice_to :: "'a list \<Rightarrow> int \<Rightarrow> 'a list" where
  "slice_to xs limit =
     (if limit < 0 then take (nat (int (length xs) + limit)) xs else take (nat limit) xs)"

definition generate_top_producers :: "mineral_record list \<Rightarrow> int \<Rightarrow> (string \<times> int) list" where
  "generate_top_producers all_minerals limit =
     slice_to (sorted_by_value_reversed (aggregate all_minerals [])) limit"

subsection \<open>Summary statistics\<close>

datatype py_error = ZeroDivisionError | ValueError

text \<open>\<open>a / b\<close> raises \<open>ZeroDivisionError\<close> when \<open>b\<close> is zero.\<close>

definition true_div :: "int \<Rightarrow> nat \<Rightarrow> py_error + real" where
  "true_div a b = (if b = 0 then Inl ZeroDivisionError else Inr (real_of_int a / real b))"

text \<open>
  \<open>max(items, key=lambda x: x[1])\<close> raises \<open>ValueError\<close> on an empty sequence and
  otherwise returns the first item of greatest value.
\<close>

fun max_loop :: "(string \<times> int) \<Rightarrow> (string \<times> int) list \<Rightarrow> (string \<times> int)" where
  "max_loop best [] = best"
| "max_loop best (x # xs) = max_loop (if snd best < snd x then x else best) xs"

definition max_by_value :: "(string \<times> int) list \<Rightarrow> py_error + (string \<times> int)" where
  "max_by_value items = (case items of [] \<Rightarrow> Inl ValueError | x # xs \<Rightarrow> Inr (max_loop x xs))"

record summary =
  total_production :: int
  total_reserves :: int
  avg_price :: real
  top_producer :: string
  top_producer_volume :: int

definition get_summary_statistics :: "mineral_record list \<Rightarrow> py_error + summary" where
  "get_summary_statistics all_minerals =
     (let total_prod = sum_list (map production_volume all_minerals);
          total_res = sum_list (map reserves all_minerals)
      in case (if all_minerals \<noteq> []
               then true_div (sum_list (map price all_minerals)) (length all_minerals)
               else Inr 0) of
           Inl e \<Rightarrow> Inl e
         | Inr average \<Rightarrow>
             (let country_production = aggregate all_minerals []
              in case (if country_production \<noteq> [] then max_by_value country_production
                       else Inr (''N/A'', 0)) of
                   Inl e \<Rightarrow> Inl e
                 | Inr top_item \<Rightarrow>
                     Inr \<lparr>total_production = total_prod,
                          total_reserves = total_res,
                          avg_price = average,
                          top_producer = fst top_item,
                          top_producer_volume = snd top_item\<rparr>))"

section \<open>The authentication module\<close>

text \<open>
  An entry of \<open>users.json\<close>; \<open>password\<close> holds the stored hash. The keys \<open>id\<close> and
  \<open>created_at\<close> are the fields \<open>user_id\<close> and \<open>user_created_at\<close>.
\<close>

record user =
  user_id :: string
  username :: string
  password :: string
  email :: string
  role :: string
  user_created_at :: string

text \<open>The \<open>user\<close> dictionary of a successful login: the account without its password.\<close>

record session_user =
  session_id :: string
  session_username :: string
  session_email :: string
  session_role :: string

text \<open>The result dictionary of \<open>register\<close> and \<open>login\<close>; only a successful login has \<open>user\<close>.\<close>

record auth_result =
  success :: bool
  message :: string
  user_data :: "session_user option"

definition role_permissions :: "(string \<times> string list) list" where
  "role_permissions =
     [(''Administrator'', [''view_all'', ''edit_all'', ''delete_all'', ''manage_users'', ''export_data'']),
      (''Investor'', [''view_all'', ''view_analytics'', ''export_data'']),
      (''Researcher'', [''view_all'', ''view_analytics'', ''download_reports''])]"

definition check_permission :: "string \<Rightarrow> string \<Rightarrow> bool" where
  "check_permission role_nm permission =
     (case map_of role_permissions role_nm of
        None \<Rightarrow> False
      | Some granted \<Rightarrow> permission \<in> set granted)"

text \<open>\<open>any(user['username'].lower() == username.lower() for user in users)\<close>\<close>

fun username_exists :: "user list \<Rightarrow> string \<Rightarrow> bool" where
  "username_exists [] name = False"
| "username_exists (u # us) name =
     (if lower (username u) = lower name then True else username_exists us name)"

text \<open>
  \<open>register\<close>, with SHA-256 as the parameter \<open>hash_password\<close>, the values of
  \<open>uuid.uuid4()\<close> and \<open>datetime.now().isoformat()\<close> as \<open>new_id\<close> and \<open>stamp\<close>, and the
  content of \<open>users.json\<close> as \<open>users\<close>. The role argument is optional and defaults to
  \<open>'Researcher'\<close>. The result is the returned dictionary and the content of
  \<open>users.json\<close> after the call. A missing argument (the empty string) is falsy.
\<close>

definition register ::
  "(string \<Rightarrow> string) \<Rightarrow> string \<Rightarrow> string \<Rightarrow> user list \<Rightarrow>
   string \<Rightarrow> string \<Rightarrow> string \<Rightarrow> string option \<Rightarrow> auth_result \<times> user list" where
  "register hash_password new_id stamp users name pw mail role_arg =
     (let role_nm = (case role_arg of None \<Rightarrow> ''Researcher'' | Some r \<Rightarrow> r)
      in if name = [] \<or> pw = [] \<or> mail = []
         then (\<lparr>success = False, message = ''All fields are required'', user_data = None\<rparr>, users)
         else if username_exists users name
         then (\<lparr>success = False, message = ''Username already exists'', user_data = None\<rparr>, users)
         else
           (let new_user =
                  \<lparr>user_id = new_id,
                   username = name,
                   password = hash_password pw,
                   email = mail,
                   role = role_nm,
                   user_created_at = stamp\<rparr>
            in (\<lparr>success = True, message = ''User registered successfully'', user_data = None\<rparr>,
                users @ [new_user])))"

text \<open>\<open>for u in users: if u['username'].lower() == username.lower(): user = u; break\<close>\<close>

fun find_user :: "user list \<Rightarrow> string \<Rightarrow> user option" where
  "find_user [] name = None"
| "find_user (u # us) name =
     (if lower (username u) = lower name then Some u else find_user us name)"

definition login :: "(string \<Rightarrow> string) \<Rightarrow> user list \<Rightarrow> string \<Rightarrow> string \<Rightarrow> auth_result" where
  "login hash_password users name pw =
     (if name = [] \<or> pw = []
      then \<lparr>success = False, message = ''Username and password required'', user_data = None\<rparr>
      else case find_user users name of
             None \<Rightarrow>
               \<lparr>success = False, message = ''Invalid username or password'', user_data = None\<rparr>
           | Some u \<Rightarrow>
               if hash_password pw \<noteq> password u
               then \<lparr>success = False, message = ''Invalid username or password'', user_data = None\<rparr>
               else \<lparr>success = True, message = ''Login successful'',
                     user_data = Some \<lparr>session_id = user_id u,
                                       session_username = username u,
                                       session_email = email u,
                                       session_role = role u\<rparr>\<rparr>)"

section \<open>Example data\<close>

text \<open>
  Concrete inputs on which the results below are evaluated. \<open>example_hash\<close> stands in
  for SHA-256 there; the results themselves hold for every hash function.
\<close>

definition example_hash :: "string \<Rightarrow> string" where
  "example_hash pw = rev pw"

definition example_users :: "user list" where
  "example_users =
     [\<lparr>user_id = ''u-1'',
       username = ''admin'',
       password = example_hash ''admin123'',
       email = ''admin@chronominerals.com'',
       role = ''Administrator'',
       user_created_at = ''2024-01-01T00:00:00''\<rparr>]"

definition example_env :: environment where
  "example_env = \<lparr>uuid4 = (\<lambda>k. ''id-'' @ replicate k CHR ''x''),
                   now = (\<lambda>k. ''2024-01-01T00:00:00'')\<rparr>"

definition example_rows :: "raw_row list" where
  "example_rows =
     [\<lparr>critical_mineral = ''Cobalt'',
       producing_countries = ''DRC, Zambia (est.), Morocco'',
       key_uses = ''Batteries''\<rparr>,
      \<lparr>critical_mineral = ''Lithium'',
       producing_countries = ''Mali (emerging), Zimbabwe'',
       key_uses = ''Batteries''\<rparr>]"

definition example_record :: "string \<Rightarrow> string \<Rightarrow> int \<Rightarrow> mineral_record" where
  "example_record mineral_nm country_nm volume =
     \<lparr>record_id = ''id'',
      mineral_name = mineral_nm,
      country = country_nm,
      uses = ''Batteries'',
      year = 2024,
      production_volume = volume,
      reserves = volume * 75,
      price = estimate_price mineral_nm,
      unit = ''tonnes'',
      created_at = ''2024-01-01T00:00:00''\<rparr>"

definition example_minerals :: "mineral_record list" where
  "example_minerals =
     [example_record ''Cobalt'' ''DRC'' 130000,
      example_record ''Copper'' ''DRC'' 1500000,
      example_record ''Cobalt'' ''Zambia'' 5000]"


section \<open>Properties of the string operations\<close>

lemma split_on_nonempty: "split_on sep s \<noteq> []"
  by (induction s) (auto split: list.splits)

lemma hd_split_on: "hd (split_on sep s) = takeWhile (\<lambda>c. c \<noteq> sep) s"
  by (induction s) (auto split: list.splits simp: split_on_nonempty)

lemma length_split_on: "length (split_on sep s) = Suc (count_list s sep)"
  by (induction s) (auto split: list.splits simp: split_on_nonempty)

lemma dropWhile_skip:
  assumes "\<not> P p"
  shows "dropWhile P (a @ p # b) = dropWhile P a @ p # b"
  using assms by (induction a) auto

lemma takeWhile_upto:
  "p \<notin> set a \<Longrightarrow> takeWhile (\<lambda>c. c \<noteq> p) (a @ p # b) = a"
  by (induction a) auto

lemma trim_idem:
  "dropWhile P (rev (dropWhile P (rev (dropWhile P t)))) = rev (dropWhile P (rev (dropWhile P t)))"
proof (cases "dropWhile P t")
  case Nil
  show ?thesis unfolding Nil by simp
next
  case (Cons x xs)
  then have nx: "\<not> P x"
    by (metis hd_dropWhile list.distinct(1) list.sel(1))
  have "dropWhile P (rev xs @ x # []) = dropWhile P (rev xs) @ x # []"
    using nx by (rule dropWhile_skip)
  then show ?thesis
    unfolding Cons using nx by simp
qed

lemma trim_cut:
  assumes np: "\<not> P p"
  shows "rev (dropWhile P (rev (dropWhile P (takeWhile (\<lambda>c. c \<noteq> p) (rev (dropWhile P (rev (dropWhile P t)))))))) =
         rev (dropWhile P (rev (dropWhile P (takeWhile (\<lambda>c. c \<noteq> p) t))))"
proof (cases "p \<in> set t")
  case False
  then have "p \<notin> set (rev (dropWhile P (rev (dropWhile P t))))"
    by (metis set_dropWhileD set_rev)
  then have 1: "takeWhile (\<lambda>c. c \<noteq> p) (rev (dropWhile P (rev (dropWhile P t)))) = rev (dropWhile P (rev (dropWhile P t)))"
    by (simp add: takeWhile_eq_all_conv) metis
  from False have 2: "takeWhile (\<lambda>c. c \<noteq> p) t = t"
    by (simp add: takeWhile_eq_all_conv) metis
  show ?thesis
    by (simp add: 1 2 trim_idem)
next
  case True
  then obtain a b where t: "t = a @ p # b" and pa: "p \<notin> set a"
    by (meson split_list_first)
  have pd: "p \<notin> set (dropWhile P a)"
    using pa by (meson set_dropWhileD)
  have s: "rev (dropWhile P (rev (dropWhile P t))) = dropWhile P a @ p # rev (dropWhile P (rev b))"
    using np by (simp add: t dropWhile_skip)
  have l: "takeWhile (\<lambda>c. c \<noteq> p) (dropWhile P a @ p # rev (dropWhile P (rev b))) = dropWhile P a"
    using pd by (rule takeWhile_upto)
  have r: "takeWhile (\<lambda>c. c \<noteq> p) t = a"
    unfolding t using pa by (rule takeWhile_upto)
  show ?thesis
    by (simp add: s l r dropWhile_idem)
qed

lemma paren_not_space: "\<not> is_space CHR ''(''"
  by (simp add: is_space_def)

lemma clean_strip: "strip (hd (split_on CHR ''('' (strip tok))) = strip (hd (split_on CHR ''('' tok))"
  unfolding hd_split_on strip_def using paren_not_space by (rule trim_cut)

section \<open>Properties of the database module\<close>

lemma country_loop_appends:
  "\<exists>new. country_loop env row cs acc = acc @ new \<and>
         map (\<lambda>r. (mineral_name r, country r)) new =
           map (\<lambda>c. (critical_mineral row, strip (hd (split_on CHR ''('' c)))) cs \<and>
         (\<forall>r \<in> set new.
            production_volume r = estimate_production (mineral_name r) (country r) \<and>
            reserves r = estimate_reserves (mineral_name r) (country r) \<and>
            price r = estimate_price (mineral_name r))"
proof (induction cs arbitrary: acc)
  case Nil
  then show ?case by simp
next
  case (Cons c cs)
  obtain new where n: "country_loop env row cs (acc @ [mineral_record_of env (length acc) row c]) =
      (acc @ [mineral_record_of env (length acc) row c]) @ new"
    and m: "map (\<lambda>r. (mineral_name r, country r)) new =
           map (\<lambda>c. (critical_mineral row, strip (hd (split_on CHR ''('' c)))) cs"
    and e: "\<forall>r \<in> set new.
            production_volume r = estimate_production (mineral_name r) (country r) \<and>
            reserves r = estimate_reserves (mineral_name r) (country r) \<and>
            price r = estimate_price (mineral_name r)"
    using Cons.IH by blast
  show ?case
    apply (rule exI[of _ "mineral_record_of env (length acc) row c # new"])
    using n m e by (simp add: mineral_record_of_def Let_def)
qed

lemma row_loop_appends:
  "\<exists>new. row_loop env rows acc = acc @ new \<and>
         map (\<lambda>r. (mineral_name r, country r)) new =
           concat (map (\<lambda>row. map (\<lambda>tok. (critical_mineral row,
                                             strip (hd (split_on CHR ''('' (strip tok)))))
                                   (split_on CHR '','' (producing_countries row))) rows) \<and>
         (\<forall>r \<in> set new.
            production_volume r = estimate_production (mineral_name r) (country r) \<and>
            reserves r = estimate_reserves (mineral_name r) (country r) \<and>
            price r = estimate_price (mineral_name r))"
proof (induction rows arbitrary: acc)
  case Nil
  then show ?case by simp
next
  case (Cons row rows)
  let ?cs = "map strip (split_on CHR '','' (producing_countries row))"
  obtain new1 where n1: "country_loop env row ?cs acc = acc @ new1"
    and m1: "map (\<lambda>r. (mineral_name r, country r)) new1 =
           map (\<lambda>c. (critical_mineral row, strip (hd (split_on CHR ''('' c)))) ?cs"
    and e1: "\<forall>r \<in> set new1.
            production_volume r = estimate_production (mineral_name r) (country r) \<and>
            reserves r = estimate_reserves (mineral_name r) (country r) \<and>
            price r = estimate_price (mineral_name r)"
    using country_loop_appends by blast
  obtain new2 where n2: "row_loop env rows (acc @ new1) = (acc @ new1) @ new2"
    and m2: "map (\<lambda>r. (mineral_name r, country r)) new2 =
           concat (map (\<lambda>row. map (\<lambda>tok. (critical_mineral row,
                                             strip (hd (split_on CHR ''('' (strip tok)))))
                                   (split_on CHR '','' (producing_countries row))) rows)"
    and e2: "\<forall>r \<in> set new2.
            production_volume r = estimate_production (mineral_name r) (country r) \<and>
            reserves r = estimate_reserves (mineral_name r) (country r) \<and>
            price r = estimate_price (mineral_name r)"
    using Cons.IH by blast
  show ?case
    apply (rule exI[of _ "new1 @ new2"])
    using n1 n2 m1 m2 e1 e2 by (auto simp: Let_def comp_def)
qed

lemma load_excel_data_pairs:
  "map (\<lambda>r. (mineral_name r, country r)) (load_excel_data env df) =
     concat (map (\<lambda>row. map (\<lambda>tok. (critical_mineral row,
                                       strip (hd (split_on CHR ''('' (strip tok)))))
                             (split_on CHR '','' (producing_countries row))) df)"
  using row_loop_appends[of env df "[]"] by (auto simp: load_excel_data_def)

lemma load_excel_data_estimates:
  assumes "r \<in> set (load_excel_data env df)"
  shows "production_volume r = estimate_production (mineral_name r) (country r) \<and>
         reserves r = estimate_reserves (mineral_name r) (country r) \<and>
         price r = estimate_price (mineral_name r)"
  using row_loop_appends[of env df "[]"] assms by (auto simp: load_excel_data_def)

lemma deposit_loop_appends:
  "\<exists>new. deposit_loop env rows acc = acc @ new \<and>
         map (\<lambda>d. d\<lparr>deposit_id := []\<rparr>) new =
           concat (map (\<lambda>row.
             case map_of country_coords (first_country_of (producing_countries row)) of
               None \<Rightarrow> []
             | Some coords \<Rightarrow>
                 [\<lparr>deposit_id = [],
                   mineral = critical_mineral row,
                   location_name = critical_mineral row @ '' Deposit - '' @
                                   first_country_of (producing_countries row),
                   deposit_country = first_country_of (producing_countries row),
                   latitude = fst coords,
                   longitude = snd coords,
                   deposit_reserves =
                     estimate_reserves (critical_mineral row)
                       (first_country_of (producing_countries row)),
                   annual_production =
                     estimate_production (critical_mineral row)
                       (first_country_of (producing_countries row)),
                   status = ''Active''\<rparr>]) rows)"
proof (induction rows arbitrary: acc)
  case Nil
  then show ?case by simp
next
  case (Cons row rows)
  show ?case
  proof (cases "map_of country_coords (first_country_of (producing_countries row))")
    case None
    then show ?thesis using Cons.IH[of acc] by (simp add: Let_def)
  next
    case (Some coords)
    let ?d = "\<lparr>deposit_id = uuid4 env (length acc),
                mineral = critical_mineral row,
                location_name = critical_mineral row @ '' Deposit - '' @
                                first_country_of (producing_countries row),
                deposit_country = first_country_of (producing_countries row),
                latitude = fst coords,
                longitude = snd coords,
                deposit_reserves =
                  estimate_reserves (critical_mineral row)
                    (first_country_of (producing_countries row)),
                annual_production =
                  estimate_production (critical_mineral row)
                    (first_country_of (producing_countries row)),
                status = ''Active''\<rparr>"
    obtain new where n: "deposit_loop env rows (acc @ [?d]) = (acc @ [?d]) @ new"
      and m: "map (\<lambda>d. d\<lparr>deposit_id := []\<rparr>) new =
           concat (map (\<lambda>row.
             case map_of country_coords (first_country_of (producing_countries row)) of
               None \<Rightarrow> []
             | Some coords \<Rightarrow>
                 [\<lparr>deposit_id = [],
                   mineral = critical_mineral row,
                   location_name = critical_mineral row @ '' Deposit - '' @
                                   first_country_of (producing_countries row),
                   deposit_country = first_country_of (producing_countries row),
                   latitude = fst coords,
                   longitude = snd coords,
                   deposit_reserves =
                     estimate_reserves (critical_mineral row)
                       (first_country_of (producing_countries row)),
                   annual_production =
                     estimate_production (critical_mineral row)
                       (first_country_of (producing_countries row)),
                   status = ''Active''\<rparr>]) rows)"
      using Cons.IH by blast
    show ?thesis
      apply (rule exI[of _ "?d # new"])
      using n m Some by (simp add: Let_def)
  qed
qed

text \<open>
  Claim C3. Every record produced by the load has its production volume from
  \<open>estimate_production\<close>, reserves equal to the production volume times 75, and a price
  that is \<open>estimate_price\<close> of its mineral name alone. \<open>estimate_reserves\<close> is
  \<open>estimate_production\<close> times 75; \<open>estimate_production\<close> is the constant of the
  lookup table for a known (mineral, country) pair and 10000 otherwise;
  \<open>estimate_price\<close> is the constant of the price table or 5000. For Cobalt in the DRC
  the production is 130000 and the reserves are 9750000.
\<close>

theorem load_records_follow_estimators:
  "(\<forall>r \<in> set (load_excel_data env df).
      production_volume r = estimate_production (mineral_name r) (country r) \<and>
      reserves r = production_volume r * 75 \<and>
      price r = estimate_price (mineral_name r)) \<and>
   estimate_reserves m c = estimate_production m c * 75 \<and>
   (\<forall>table v. map_of production_data m = Some table \<longrightarrow> map_of table c = Some v \<longrightarrow>
      estimate_production m c = v) \<and>
   ((map_of production_data m = None \<or>
     (\<exists>table. map_of production_data m = Some table \<and> map_of table c = None)) \<longrightarrow>
      estimate_production m c = 10000) \<and>
   (\<forall>p. map_of prices m = Some p \<longrightarrow> estimate_price m = p) \<and>
   (map_of prices m = None \<longrightarrow> estimate_price m = 5000) \<and>
   estimate_production ''Cobalt'' ''DRC'' = 130000 \<and>
   estimate_reserves ''Cobalt'' ''DRC'' = 9750000"
proof -
  have a: "\<forall>r \<in> set (load_excel_data env df).
      production_volume r = estimate_production (mineral_name r) (country r) \<and>
      reserves r = production_volume r * 75 \<and>
      price r = estimate_price (mineral_name r)"
  proof
    fix r
    assume "r \<in> set (load_excel_data env df)"
    from load_excel_data_estimates[OF this] show
      "production_volume r = estimate_production (mineral_name r) (country r) \<and>
       reserves r = production_volume r * 75 \<and>
       price r = estimate_price (mineral_name r)"
      by (simp add: estimate_reserves_def)
  qed
  have b: "estimate_reserves m c = estimate_production m c * 75"
    by (simp add: estimate_reserves_def)
  have c: "\<forall>table v. map_of production_data m = Some table \<longrightarrow> map_of table c = Some v \<longrightarrow>
      estimate_production m c = v"
    by (simp add: estimate_production_def)
  have d: "(map_of production_data m = None \<or>
     (\<exists>table. map_of production_data m = Some table \<and> map_of table c = None)) \<longrightarrow>
      estimate_production m c = 10000"
    by (auto simp: estimate_production_def)
  have e: "\<forall>p. map_of prices m = Some p \<longrightarrow> estimate_price m = p"
    by (simp add: estimate_price_def)
  have f: "map_of prices m = None \<longrightarrow> estimate_price m = 5000"
    by (simp add: estimate_price_def)
  have g: "estimate_production ''Cobalt'' ''DRC'' = 130000"
    by (simp add: estimate_production_def production_data_def)
  have h: "estimate_reserves ''Cobalt'' ''DRC'' = 9750000"
    by (simp add: estimate_reserves_def g)
  from a b c d e f g h show ?thesis by (intro conjI)
qed

lemma example_load:
  "map (\<lambda>r. (mineral_name r, country r)) (load_excel_data example_env example_rows) =
     [(''Cobalt'', ''DRC''), (''Cobalt'', ''Zambia''), (''Cobalt'', ''Morocco''),
      (''Lithium'', ''Mali''), (''Lithium'', ''Zimbabwe'')]"
  by (simp add: load_excel_data_pairs example_rows_def hd_split_on strip_def is_space_def)

theorem load_records_follow_estimators_witness:
  "map country (load_excel_data example_env example_rows) =
     [''DRC'', ''Zambia'', ''Morocco'', ''Mali'', ''Zimbabwe''] \<and>
   production_volume (hd (load_excel_data example_env example_rows)) =
     estimate_production ''Cobalt'' ''DRC'' \<and>
   reserves (hd (load_excel_data example_env example_rows)) =
     production_volume (hd (load_excel_data example_env example_rows)) * 75 \<and>
   price (hd (load_excel_data example_env example_rows)) = estimate_price ''Cobalt'' \<and>
   map_of production_data ''Cobalt'' =
     Some [(''DRC'', 130000), (''Zambia'', 5000), (''Morocco'', 2000)] \<and>
   estimate_production ''Cobalt'' ''Zambia'' = 5000 \<and>
   map_of production_data ''Gold'' = None \<and>
   estimate_production ''Gold'' ''Ghana'' = 10000 \<and>
   map_of prices ''Cobalt'' = Some 32000 \<and>
   estimate_price ''Cobalt'' = 32000 \<and>
   map_of prices ''Gold'' = None \<and>
   estimate_price ''Gold'' = 5000"
proof -
  let ?L = "load_excel_data example_env example_rows"
  have pairs: "map (\<lambda>r. (mineral_name r, country r)) ?L =
     [(''Cobalt'', ''DRC''), (''Cobalt'', ''Zambia''), (''Cobalt'', ''Morocco''),
      (''Lithium'', ''Mali''), (''Lithium'', ''Zimbabwe'')]"
    by (rule example_load)
  have "map country ?L = map snd (map (\<lambda>r. (mineral_name r, country r)) ?L)"
    by (simp add: comp_def)
  then have cs: "map country ?L = [''DRC'', ''Zambia'', ''Morocco'', ''Mali'', ''Zimbabwe'']"
    unfolding pairs by simp
  have ne: "?L \<noteq> []"
    using pairs by auto
  then have mem: "hd ?L \<in> set ?L"
    by simp
  have "(mineral_name (hd ?L), country (hd ?L)) =
        hd (map (\<lambda>r. (mineral_name r, country r)) ?L)"
    using ne by (simp add: hd_map)
  then have first: "mineral_name (hd ?L) = ''Cobalt'' \<and> country (hd ?L) = ''DRC''"
    unfolding pairs by simp
  have k: "map_of production_data ''Cobalt'' =
     Some [(''DRC'', 130000), (''Zambia'', 5000), (''Morocco'', 2000)]"
    by (simp add: production_data_def)
  have g: "map_of production_data ''Gold'' = None"
    by (simp add: production_data_def)
  have pc: "map_of prices ''Cobalt'' = Some 32000"
    by (simp add: prices_def)
  have pg: "map_of prices ''Gold'' = None"
    by (simp add: prices_def)
  note t1 = load_records_follow_estimators[of example_env example_rows "''Cobalt''" "''Zambia''"]
  note t2 = load_records_follow_estimators[of example_env example_rows "''Gold''" "''Ghana''"]
  from t1 have a: "\<forall>r \<in> set ?L.
      production_volume r = estimate_production (mineral_name r) (country r) \<and>
      reserves r = production_volume r * 75 \<and>
      price r = estimate_price (mineral_name r)"
    by (rule conjunct1)
  from a mem first have r1: "production_volume (hd ?L) = estimate_production ''Cobalt'' ''DRC''"
    by auto
  from a mem have r2: "reserves (hd ?L) = production_volume (hd ?L) * 75"
    by blast
  from a mem first have r3: "price (hd ?L) = estimate_price ''Cobalt''"
    by auto
  have z: "estimate_production ''Cobalt'' ''Zambia'' = 5000"
    using t1 k by simp
  have gg: "estimate_production ''Gold'' ''Ghana'' = 10000"
    using t2 g by blast
  have c1: "estimate_price ''Cobalt'' = 32000"
    using t1 pc by blast
  have c2: "estimate_price ''Gold'' = 5000"
    using t2 pg by blast
  from cs r1 r2 r3 k z g gg pc c1 pg c2 show ?thesis by (intro conjI)
qed

text \<open>
  Claim C4. The load emits exactly one record per comma-separated token of a row's
  country string, in row order and then in token order; the record's country is the
  token trimmed of whitespace, cut at the first opening parenthesis and trimmed again.
  A single row yields one record more than its country string has commas, and the row
  with the countries \<open>DRC, Zambia (est.), Morocco\<close> yields exactly the three countries
  \<open>DRC\<close>, \<open>Zambia\<close> and \<open>Morocco\<close>.
\<close>

theorem load_one_record_per_country:
  "map (\<lambda>r. (mineral_name r, country r)) (load_excel_data env df) =
     concat (map (\<lambda>row. map (\<lambda>tok. (critical_mineral row,
                                       strip (takeWhile (\<lambda>c. c \<noteq> CHR ''('') (strip tok))))
                             (split_on CHR '','' (producing_countries row))) df) \<and>
   length (load_excel_data env [row]) = Suc (count_list (producing_countries row) CHR '','') \<and>
   map country
     (load_excel_data env
        [\<lparr>critical_mineral = ''Cobalt'',
          producing_countries = ''DRC, Zambia (est.), Morocco'',
          key_uses = u\<rparr>]) = [''DRC'', ''Zambia'', ''Morocco'']"
proof -
  have a: "map (\<lambda>r. (mineral_name r, country r)) (load_excel_data env df) =
     concat (map (\<lambda>row. map (\<lambda>tok. (critical_mineral row,
                                       strip (takeWhile (\<lambda>c. c \<noteq> CHR ''('') (strip tok))))
                             (split_on CHR '','' (producing_countries row))) df)" for df
    by (simp add: load_excel_data_pairs hd_split_on)
  have "length (load_excel_data env [row]) =
        length (map (\<lambda>r. (mineral_name r, country r)) (load_excel_data env [row]))"
    by simp
  also have "\<dots> = Suc (count_list (producing_countries row) CHR '','')"
    unfolding a by (simp add: length_split_on)
  finally have b: "length (load_excel_data env [row]) =
                   Suc (count_list (producing_countries row) CHR '','')" .
  have "map country
     (load_excel_data env
        [\<lparr>critical_mineral = ''Cobalt'',
          producing_countries = ''DRC, Zambia (est.), Morocco'',
          key_uses = u\<rparr>]) =
     map snd (map (\<lambda>r. (mineral_name r, country r))
       (load_excel_data env
        [\<lparr>critical_mineral = ''Cobalt'',
          producing_countries = ''DRC, Zambia (est.), Morocco'',
          key_uses = u\<rparr>]))"
    by (simp add: comp_def)
  also have "\<dots> = [''DRC'', ''Zambia'', ''Morocco'']"
    unfolding a by (simp add: strip_def is_space_def)
  finally have c: "map country
     (load_excel_data env
        [\<lparr>critical_mineral = ''Cobalt'',
          producing_countries = ''DRC, Zambia (est.), Morocco'',
          key_uses = u\<rparr>]) = [''DRC'', ''Zambia'', ''Morocco'']" .
  from a b c show ?thesis by (intro conjI)
qed

lemma deposit_loop_length: "length (deposit_loop env rows acc) \<le> length acc + length rows"
proof (induction rows arbitrary: acc)
  case Nil
  then show ?case by simp
next
  case (Cons row rows)
  show ?case
  proof (cases "map_of country_coords (first_country_of (producing_countries row))")
    case None
    then show ?thesis using Cons.IH[of acc] by (simp add: Let_def)
  next
    case (Some coords)
    then show ?thesis
      using Cons.IH[of "acc @ [\<lparr>deposit_id = uuid4 env (length acc),
                  mineral = critical_mineral row,
                  location_name = critical_mineral row @ '' Deposit - '' @
                                  first_country_of (producing_countries row),
                  deposit_country = first_country_of (producing_countries row),
                  latitude = fst coords,
                  longitude = snd coords,
                  deposit_reserves =
                    estimate_reserves (critical_mineral row)
                      (first_country_of (producing_countries row)),
                  annual_production =
                    estimate_production (critical_mineral row)
                      (first_country_of (producing_countries row)),
                  status = ''Active''\<rparr>]"]
      by (simp add: Let_def)
  qed
qed

lemma deposit_loop_invariant:
  assumes "\<forall>d \<in> set acc.
             status d = ''Active'' \<and>
             map_of country_coords (deposit_country d) \<noteq> None \<and>
             deposit_reserves d = estimate_reserves (mineral d) (deposit_country d) \<and>
             annual_production d = estimate_production (mineral d) (deposit_country d)"
  shows "\<forall>d \<in> set (deposit_loop env rows acc).
             status d = ''Active'' \<and>
             map_of country_coords (deposit_country d) \<noteq> None \<and>
             deposit_reserves d = estimate_reserves (mineral d) (deposit_country d) \<and>
             annual_production d = estimate_production (mineral d) (deposit_country d)"
  using assms
proof (induction rows arbitrary: acc)
  case Nil
  then show ?case by simp
next
  case (Cons row rows)
  show ?case
  proof (cases "map_of country_coords (first_country_of (producing_countries row))")
    case None
    then show ?thesis using Cons.IH[OF Cons.prems] by (simp add: Let_def)
  next
    case (Some coords)
    let ?d = "\<lparr>deposit_id = uuid4 env (length acc),
                  mineral = critical_mineral row,
                  location_name = critical_mineral row @ '' Deposit - '' @
                                  first_country_of (producing_countries row),
                  deposit_country = first_country_of (producing_countries row),
                  latitude = fst coords,
                  longitude = snd coords,
                  deposit_reserves =
                    estimate_reserves (critical_mineral row)
                      (first_country_of (producing_countries row)),
                  annual_production =
                    estimate_production (critical_mineral row)
                      (first_country_of (producing_countries row)),
                  status = ''Active''\<rparr>"
    have "\<forall>d \<in> set (acc @ [?d]).
             status d = ''Active'' \<and>
             map_of country_coords (deposit_country d) \<noteq> None \<and>
             deposit_reserves d = estimate_reserves (mineral d) (deposit_country d) \<and>
             annual_production d = estimate_production (mineral d) (deposit_country d)"
      using Cons.prems Some by simp
    from Cons.IH[OF this] show ?thesis
      using Some by (simp add: Let_def)
  qed
qed

lemma first_country_of_clean:
  "first_country_of s =
     strip (takeWhile (\<lambda>c. c \<noteq> CHR ''('') (strip (hd (split_on CHR '','' s))))"
  using clean_strip[of "hd (split_on CHR '','' s)"]
  by (simp add: first_country_of_def hd_split_on)

lemma first_country_of_first_record:
  "first_country_of (producing_countries row) = country (hd (load_excel_data env [row]))"
proof -
  let ?L = "load_excel_data env [row]"
  let ?toks = "split_on CHR '','' (producing_countries row)"
  have p: "map (\<lambda>r. (mineral_name r, country r)) ?L =
        map (\<lambda>tok. (critical_mineral row, strip (hd (split_on CHR ''('' (strip tok))))) ?toks"
    by (simp add: load_excel_data_pairs)
  have ne: "?toks \<noteq> []"
    by (rule split_on_nonempty)
  then have lne: "?L \<noteq> []"
    using p by auto
  have "country (hd ?L) = snd (hd (map (\<lambda>r. (mineral_name r, country r)) ?L))"
    using lne by (simp add: hd_map)
  also have "\<dots> = strip (hd (split_on CHR ''('' (strip (hd ?toks))))"
    unfolding p using ne by (simp add: hd_map)
  also have "\<dots> = first_country_of (producing_countries row)"
    by (simp add: first_country_of_def clean_strip)
  finally show ?thesis by simp
qed

text \<open>
  Claim C5. \<open>create_sample_deposits\<close> creates at most one deposit per row: for each
  row, in order, one deposit when the row's first country (the first comma-separated
  token, trimmed and cut at the first parenthesis exactly as the country of the first
  record the load emits for that row) has an entry in the coordinate table, and none
  otherwise. Every deposit created has status \<open>Active\<close>, a country of the coordinate
  table, and reserves and annual production from \<open>estimate_reserves\<close> and
  \<open>estimate_production\<close>.
\<close>

theorem deposits_first_country_only:
  "map (\<lambda>d. d\<lparr>deposit_id := []\<rparr>) (create_sample_deposits env df) =
     concat (map (\<lambda>row.
       case map_of country_coords (first_country_of (producing_countries row)) of
         None \<Rightarrow> []
       | Some coords \<Rightarrow>
           [\<lparr>deposit_id = [],
             mineral = critical_mineral row,
             location_name = critical_mineral row @ '' Deposit - '' @
                             first_country_of (producing_countries row),
             deposit_country = first_country_of (producing_countries row),
             latitude = fst coords,
             longitude = snd coords,
             deposit_reserves =
               estimate_reserves (critical_mineral row)
                 (first_country_of (producing_countries row)),
             annual_production =
               estimate_production (critical_mineral row)
                 (first_country_of (producing_countries row)),
             status = ''Active''\<rparr>]) df) \<and>
   length (create_sample_deposits env df) \<le> length df \<and>
   first_country_of s =
     strip (takeWhile (\<lambda>c. c \<noteq> CHR ''('') (strip (hd (split_on CHR '','' s)))) \<and>
   first_country_of (producing_countries row) = country (hd (load_excel_data env [row])) \<and>
   (\<forall>d \<in> set (create_sample_deposits env df).
      status d = ''Active'' \<and>
      map_of country_coords (deposit_country d) \<noteq> None \<and>
      deposit_reserves d = estimate_reserves (mineral d) (deposit_country d) \<and>
      annual_production d = estimate_production (mineral d) (deposit_country d) \<and>
      deposit_reserves d = annual_production d * 75)"
proof -
  have a: "map (\<lambda>d. d\<lparr>deposit_id := []\<rparr>) (create_sample_deposits env df) =
     concat (map (\<lambda>row.
       case map_of country_coords (first_country_of (producing_countries row)) of
         None \<Rightarrow> []
       | Some coords \<Rightarrow>
           [\<lparr>deposit_id = [],
             mineral = critical_mineral row,
             location_name = critical_mineral row @ '' Deposit - '' @
                             first_country_of (producing_countries row),
             deposit_country = first_country_of (producing_countries row),
             latitude = fst coords,
             longitude = snd coords,
             deposit_reserves =
               estimate_reserves (critical_mineral row)
                 (first_country_of (producing_countries row)),
             annual_production =
               estimate_production (critical_mineral row)
                 (first_country_of (producing_countries row)),
             status = ''Active''\<rparr>]) df)"
    using deposit_loop_appends[of env df "[]"] by (auto simp: create_sample_deposits_def)
  have b: "length (create_sample_deposits env df) \<le> length df"
    using deposit_loop_length[of env df "[]"] by (simp add: create_sample_deposits_def)
  have c: "first_country_of s =
     strip (takeWhile (\<lambda>c. c \<noteq> CHR ''('') (strip (hd (split_on CHR '','' s))))"
    by (rule first_country_of_clean)
  have d: "first_country_of (producing_countries row) =
           country (hd (load_excel_data env [row]))"
    by (rule first_country_of_first_record)
  have "\<forall>d \<in> set (deposit_loop env df []).
             status d = ''Active'' \<and>
             map_of country_coords (deposit_country d) \<noteq> None \<and>
             deposit_reserves d = estimate_reserves (mineral d) (deposit_country d) \<and>
             annual_production d = estimate_production (mineral d) (deposit_country d)"
    by (rule deposit_loop_invariant) simp
  then have e: "\<forall>d \<in> set (create_sample_deposits env df).
      status d = ''Active'' \<and>
      map_of country_coords (deposit_country d) \<noteq> None \<and>
      deposit_reserves d = estimate_reserves (mineral d) (deposit_country d) \<and>
      annual_production d = estimate_production (mineral d) (deposit_country d) \<and>
      deposit_reserves d = annual_production d * 75"
    by (simp add: create_sample_deposits_def estimate_reserves_def)
  from a b c d e show ?thesis by (intro conjI)
qed

lemma example_deposits:
  "map (\<lambda>d. (mineral d, deposit_country d)) (create_sample_deposits example_env example_rows) =
     [(''Cobalt'', ''DRC'')]"
  by (simp add: create_sample_deposits_def example_rows_def first_country_of_def hd_split_on
        strip_def is_space_def country_coords_def Let_def)

theorem deposits_first_country_only_witness:
  "map (\<lambda>d. (mineral d, deposit_country d))
     (create_sample_deposits example_env example_rows) = [(''Cobalt'', ''DRC'')] \<and>
   map_of country_coords ''Mali'' = None \<and>
   status (hd (create_sample_deposits example_env example_rows)) = ''Active'' \<and>
   deposit_reserves (hd (create_sample_deposits example_env example_rows)) = 9750000 \<and>
   annual_production (hd (create_sample_deposits example_env example_rows)) = 130000"
proof -
  let ?D = "create_sample_deposits example_env example_rows"
  have ex: "map (\<lambda>d. (mineral d, deposit_country d)) ?D = [(''Cobalt'', ''DRC'')]"
    by (rule example_deposits)
  then have ne: "?D \<noteq> []"
    by auto
  then have mem: "hd ?D \<in> set ?D"
    by simp
  have "(mineral (hd ?D), deposit_country (hd ?D)) =
        hd (map (\<lambda>d. (mineral d, deposit_country d)) ?D)"
    using ne by (simp add: hd_map)
  then have first: "mineral (hd ?D) = ''Cobalt'' \<and> deposit_country (hd ?D) = ''DRC''"
    unfolding ex by simp
  have mali: "map_of country_coords ''Mali'' = None"
    by (simp add: country_coords_def)
  have p: "estimate_production ''Cobalt'' ''DRC'' = 130000"
    by (simp add: estimate_production_def production_data_def)
  have all: "\<forall>d \<in> set ?D.
      status d = ''Active'' \<and>
      map_of country_coords (deposit_country d) \<noteq> None \<and>
      deposit_reserves d = estimate_reserves (mineral d) (deposit_country d) \<and>
      annual_production d = estimate_production (mineral d) (deposit_country d) \<and>
      deposit_reserves d = annual_production d * 75"
    using deposits_first_country_only[of example_env example_rows "[]" "hd example_rows"] by blast
  from all mem have s: "status (hd ?D) = ''Active''"
    by blast
  from all mem first have ap: "annual_production (hd ?D) = 130000"
    using p by auto
  from all mem have "deposit_reserves (hd ?D) = annual_production (hd ?D) * 75"
    by blast
  then have dr: "deposit_reserves (hd ?D) = 9750000"
    using ap by simp
  from ex mali s dr ap show ?thesis by (intro conjI)
qed

section \<open>Properties of the queries\<close>

lemma search_loop_filter:
  "search_loop flt ms results =
     results @ filter (\<lambda>m. \<not> field_mismatch (f_mineral_name flt) (mineral_name m) \<and>
                            \<not> field_mismatch (f_country flt) (country m)) ms"
  by (induction ms arbitrary: results) (simp_all add: Let_def)

lemma field_mismatch_iff:
  "\<not> field_mismatch wanted actual \<longleftrightarrow>
     (case wanted of None \<Rightarrow> True | Some v \<Rightarrow> v = [] \<or> lower actual = lower v)"
  by (auto simp: field_mismatch_def split: option.splits)

text \<open>
  Claim C1, as amended. \<open>search_minerals\<close> returns exactly the records whose mineral
  name and country each match the filter, in the order of the record list: a filter
  field that is present with a non-empty value must equal the record's field ignoring
  case; a field that is absent, or present with the empty string, imposes no
  constraint. With no filter, or with the empty filter, it returns the record list
  unchanged.
\<close>

theorem search_minerals_is_filter:
  "search_minerals minerals fopt =
     filter (\<lambda>m. case fopt of
                   None \<Rightarrow> True
                 | Some flt \<Rightarrow>
                     (case f_mineral_name flt of
                        None \<Rightarrow> True
                      | Some v \<Rightarrow> v = [] \<or> lower (mineral_name m) = lower v) \<and>
                     (case f_country flt of
                        None \<Rightarrow> True
                      | Some v \<Rightarrow> v = [] \<or> lower (country m) = lower v)) minerals \<and>
   search_minerals minerals None = minerals \<and>
   search_minerals minerals (Some \<lparr>f_mineral_name = None, f_country = None\<rparr>) = minerals"
proof -
  have a: "search_minerals minerals fopt =
     filter (\<lambda>m. case fopt of
                   None \<Rightarrow> True
                 | Some flt \<Rightarrow>
                     (case f_mineral_name flt of
                        None \<Rightarrow> True
                      | Some v \<Rightarrow> v = [] \<or> lower (mineral_name m) = lower v) \<and>
                     (case f_country flt of
                        None \<Rightarrow> True
                      | Some v \<Rightarrow> v = [] \<or> lower (country m) = lower v)) minerals"
  proof (cases fopt)
    case None
    then show ?thesis by (simp add: search_minerals_def)
  next
    case (Some flt)
    show ?thesis
    proof (cases "f_mineral_name flt = None \<and> f_country flt = None")
      case True
      then show ?thesis using Some by (simp add: search_minerals_def)
    next
      case False
      then show ?thesis
        using Some by (simp add: search_minerals_def search_loop_filter field_mismatch_iff)
    qed
  qed
  have b: "search_minerals minerals None = minerals"
    by (simp add: search_minerals_def)
  have c: "search_minerals minerals (Some \<lparr>f_mineral_name = None, f_country = None\<rparr>) = minerals"
    by (simp add: search_minerals_def)
  from a b c show ?thesis by (intro conjI)
qed

theorem search_minerals_is_filter_witness:
  "search_minerals example_minerals
     (Some \<lparr>f_mineral_name = Some ''COBALT'', f_country = Some ''drc''\<rparr>) =
     [example_record ''Cobalt'' ''DRC'' 130000] \<and>
   search_minerals example_minerals
     (Some \<lparr>f_mineral_name = None, f_country = Some ''DRC''\<rparr>) =
     [example_record ''Cobalt'' ''DRC'' 130000, example_record ''Copper'' ''DRC'' 1500000]"
  using search_minerals_is_filter
          [of example_minerals "Some \<lparr>f_mineral_name = Some ''COBALT'', f_country = Some ''drc''\<rparr>"]
        search_minerals_is_filter
          [of example_minerals "Some \<lparr>f_mineral_name = None, f_country = Some ''DRC''\<rparr>"]
  by (simp add: example_minerals_def example_record_def lower_def lower_char_def lower_table_def)

theorem search_present_field_counterexample:
  "search_minerals example_minerals (Some \<lparr>f_mineral_name = Some [], f_country = None\<rparr>) =
     example_minerals \<and>
   example_minerals \<noteq> [] \<and>
   lower (mineral_name (example_record ''Cobalt'' ''DRC'' 130000)) \<noteq> lower [] \<and>
   lower (mineral_name (example_record ''Copper'' ''DRC'' 1500000)) \<noteq> lower [] \<and>
   lower (mineral_name (example_record ''Cobalt'' ''Zambia'' 5000)) \<noteq> lower []"
  by (simp add: search_minerals_def field_mismatch_def example_minerals_def example_record_def
        lower_def Let_def)

section \<open>Properties of the analytics module\<close>

lemma aggregate_snoc:
  "aggregate (ms @ [m]) cp = add_to (country m) (production_volume m) (aggregate ms cp)"
  by (induction ms arbitrary: cp) simp_all

lemma add_to_map:
  assumes "distinct ks"
  shows "add_to c v (map (\<lambda>k. (k, f k)) ks) =
           (if c \<in> set ks then map (\<lambda>k. (k, if k = c then f k + v else f k)) ks
            else map (\<lambda>k. (k, f k)) ks @ [(c, v)])"
  using assms by (induction ks) auto

lemma country_total_snoc:
  "country_total (ms @ [m]) k =
     country_total ms k + (if country m = k then production_volume m else 0)"
  by (simp add: country_total_def)

lemma country_total_absent:
  "c \<notin> set (map country ms) \<Longrightarrow> country_total ms c = 0"
  by (induction ms) (auto simp: country_total_def)

lemma aggregate_grouped: "aggregate ms [] = grouped_by_country ms"
proof (induction ms rule: rev_induct)
  case Nil
  then show ?case by (simp add: grouped_by_country_def)
next
  case (snoc m ms)
  let ?ks = "rev (remdups (rev (map country ms)))"
  let ?c = "country m"
  let ?v = "production_volume m"
  have d: "distinct ?ks" by simp
  have ks: "set ?ks = set (map country ms)" by simp
  have "aggregate (ms @ [m]) [] = add_to ?c ?v (map (\<lambda>k. (k, country_total ms k)) ?ks)"
    using snoc.IH by (simp add: aggregate_snoc grouped_by_country_def)
  also have "\<dots> = grouped_by_country (ms @ [m])"
  proof (cases "?c \<in> set ?ks")
    case True
    then have "rev (remdups (rev (map country (ms @ [m])))) = ?ks"
      by simp
    then have "grouped_by_country (ms @ [m]) =
               map (\<lambda>k. (k, country_total (ms @ [m]) k)) ?ks"
      by (simp only: grouped_by_country_def)
    also have "\<dots> = map (\<lambda>k. (k, if k = ?c then country_total ms k + ?v else country_total ms k)) ?ks"
      by (rule map_cong) (auto simp: country_total_snoc)
    finally show ?thesis
      using True by (simp only: add_to_map[OF d] if_True)
  next
    case False
    then have "rev (remdups (rev (map country (ms @ [m])))) = ?ks @ [?c]"
      by simp
    then have "grouped_by_country (ms @ [m]) =
               map (\<lambda>k. (k, country_total (ms @ [m]) k)) (?ks @ [?c])"
      by (simp only: grouped_by_country_def)
    also have "\<dots> = map (\<lambda>k. (k, country_total (ms @ [m]) k)) ?ks @
                      [(?c, country_total (ms @ [m]) ?c)]"
      by simp
    also have "map (\<lambda>k. (k, country_total (ms @ [m]) k)) ?ks =
               map (\<lambda>k. (k, country_total ms k)) ?ks"
      using False by (intro map_cong) (auto simp: country_total_snoc)
    also have "country_total (ms @ [m]) ?c = ?v"
      using False country_total_absent[of ?c ms] by (simp add: country_total_snoc)
    finally show ?thesis
      using False by (simp only: add_to_map[OF d] if_False)
  qed
  finally show ?case .
qed

lemma sorted_by_value_reversed_desc:
  "sorted_wrt (\<lambda>a b. snd b \<le> snd a) (sorted_by_value_reversed items)"
proof -
  have "sorted (map (\<lambda>x. - snd x) (sort_key (\<lambda>x. - snd x) items))"
    by (rule sorted_sort_key)
  then show ?thesis
    by (simp add: sorted_by_value_reversed_def sorted_map)
qed

lemma sorted_by_value_reversed_stable:
  "filter (\<lambda>p. snd p = v) (sorted_by_value_reversed items) = filter (\<lambda>p. snd p = v) items"
  using sort_key_stable[of "\<lambda>x. - snd x" "- v" items]
  by (simp add: sorted_by_value_reversed_def)

lemma search_by_mineral_name:
  "search_minerals all_minerals (Some \<lparr>f_mineral_name = Some mineral_nm, f_country = None\<rparr>) =
     filter (\<lambda>m. mineral_nm = [] \<or> lower (mineral_name m) = lower mineral_nm) all_minerals"
  by (simp add: search_minerals_def search_loop_filter field_mismatch_iff)

text \<open>
  Claim C2, as amended. \<open>generate_production_by_country\<close> takes the records whose
  mineral name equals the given mineral ignoring case (every record when the mineral is
  the empty string); when there is none it returns \<open>None\<close>. Otherwise it returns the
  (country, total) pairs of \<open>grouped_by_country\<close> over those records, sorted by
  descending total, pairs of equal total staying in the order in which their countries
  first occur among the matching records. Over the Cobalt records DRC 130000 and Zambia
  5000 it returns \<open>[('DRC', 130000), ('Zambia', 5000)]\<close>.
\<close>

theorem production_by_country_grouped_sorted:
  assumes "ms = search_minerals all_minerals
                  (Some \<lparr>f_mineral_name = Some mineral_nm, f_country = None\<rparr>)"
  shows
  "ms = filter (\<lambda>m. mineral_nm = [] \<or> lower (mineral_name m) = lower mineral_nm) all_minerals \<and>
   (ms = [] \<longrightarrow> generate_production_by_country all_minerals mineral_nm = None) \<and>
   (ms \<noteq> [] \<longrightarrow>
      (\<exists>xs. generate_production_by_country all_minerals mineral_nm = Some xs \<and>
            sorted_wrt (\<lambda>a b. snd b \<le> snd a) xs \<and>
            set xs = set (grouped_by_country ms) \<and>
            length xs = length (grouped_by_country ms) \<and>
            (\<forall>v. filter (\<lambda>p. snd p = v) xs = filter (\<lambda>p. snd p = v) (grouped_by_country ms)))) \<and>
   generate_production_by_country
     [example_record ''Cobalt'' ''DRC'' 130000, example_record ''Cobalt'' ''Zambia'' 5000]
     ''Cobalt'' = Some [(''DRC'', 130000), (''Zambia'', 5000)]"
proof -
  have a: "ms = filter (\<lambda>m. mineral_nm = [] \<or> lower (mineral_name m) = lower mineral_nm)
                  all_minerals"
    unfolding assms by (rule search_by_mineral_name)
  have g: "generate_production_by_country all_minerals mineral_nm =
           (if ms = [] then None else Some (sorted_by_value_reversed (grouped_by_country ms)))"
    unfolding assms by (simp add: generate_production_by_country_def Let_def aggregate_grouped)
  have b: "ms = [] \<longrightarrow> generate_production_by_country all_minerals mineral_nm = None"
    by (simp add: g)
  have c: "ms \<noteq> [] \<longrightarrow>
      (\<exists>xs. generate_production_by_country all_minerals mineral_nm = Some xs \<and>
            sorted_wrt (\<lambda>a b. snd b \<le> snd a) xs \<and>
            set xs = set (grouped_by_country ms) \<and>
            length xs = length (grouped_by_country ms) \<and>
            (\<forall>v. filter (\<lambda>p. snd p = v) xs = filter (\<lambda>p. snd p = v) (grouped_by_country ms)))"
  proof
    assume ne: "ms \<noteq> []"
    let ?xs = "sorted_by_value_reversed (grouped_by_country ms)"
    have 1: "generate_production_by_country all_minerals mineral_nm = Some ?xs"
      using ne by (simp add: g)
    have 2: "sorted_wrt (\<lambda>a b. snd b \<le> snd a) ?xs"
      by (rule sorted_by_value_reversed_desc)
    have 3: "set ?xs = set (grouped_by_country ms)"
      by (simp add: sorted_by_value_reversed_def)
    have 4: "length ?xs = length (grouped_by_country ms)"
      by (simp add: sorted_by_value_reversed_def)
    have 5: "\<forall>v. filter (\<lambda>p. snd p = v) ?xs = filter (\<lambda>p. snd p = v) (grouped_by_country ms)"
      by (simp add: sorted_by_value_reversed_stable)
    from 1 2 3 4 5 show "\<exists>xs. generate_production_by_country all_minerals mineral_nm = Some xs \<and>
            sorted_wrt (\<lambda>a b. snd b \<le> snd a) xs \<and>
            set xs = set (grouped_by_country ms) \<and>
            length xs = length (grouped_by_country ms) \<and>
            (\<forall>v. filter (\<lambda>p. snd p = v) xs = filter (\<lambda>p. snd p = v) (grouped_by_country ms))"
      by blast
  qed
  have d: "generate_production_by_country
     [example_record ''Cobalt'' ''DRC'' 130000, example_record ''Cobalt'' ''Zambia'' 5000]
     ''Cobalt'' = Some [(''DRC'', 130000), (''Zambia'', 5000)]"
    by (simp add: generate_production_by_country_def search_minerals_def field_mismatch_def
        example_record_def lower_def lower_char_def lower_table_def Let_def
        sorted_by_value_reversed_def)
  from a b c d show ?thesis by (intro conjI)
qed

theorem production_by_country_grouped_sorted_witness:
  "search_minerals example_minerals
     (Some \<lparr>f_mineral_name = Some ''cobalt'', f_country = None\<rparr>) =
     [example_record ''Cobalt'' ''DRC'' 130000, example_record ''Cobalt'' ''Zambia'' 5000] \<and>
   generate_production_by_country example_minerals ''cobalt'' \<noteq> None \<and>
   generate_production_by_country example_minerals ''cobalt'' =
     Some [(''DRC'', 130000), (''Zambia'', 5000)] \<and>
   generate_production_by_country example_minerals ''Gold'' = None"
proof -
  have s: "search_minerals example_minerals
     (Some \<lparr>f_mineral_name = Some ''cobalt'', f_country = None\<rparr>) =
     [example_record ''Cobalt'' ''DRC'' 130000, example_record ''Cobalt'' ''Zambia'' 5000]"
    by (simp add: search_by_mineral_name example_minerals_def example_record_def
          lower_def lower_char_def lower_table_def)
  have n: "generate_production_by_country example_minerals ''cobalt'' \<noteq> None"
    using production_by_country_grouped_sorted[OF refl, of example_minerals "''cobalt''"]
    unfolding s by auto
  have e: "generate_production_by_country example_minerals ''cobalt'' =
     Some [(''DRC'', 130000), (''Zambia'', 5000)]"
    by (simp add: generate_production_by_country_def s Let_def example_record_def
          sorted_by_value_reversed_def)
  have s': "search_minerals example_minerals
     (Some \<lparr>f_mineral_name = Some ''Gold'', f_country = None\<rparr>) = []"
    by (simp add: search_by_mineral_name example_minerals_def example_record_def
          lower_def lower_char_def lower_table_def)
  have g: "generate_production_by_country example_minerals ''Gold'' = None"
    using production_by_country_grouped_sorted[OF refl, of example_minerals "''Gold''"]
    unfolding s' by simp
  from s n e g show ?thesis by (intro conjI)
qed

theorem production_by_country_ties_counterexample:
  "generate_production_by_country
     [example_record ''Nickel'' ''Zimbabwe'' 10000, example_record ''Nickel'' ''Botswana'' 10000]
     ''Nickel'' = Some [(''Zimbabwe'', 10000), (''Botswana'', 10000)] \<and>
   ''Botswana'' < ''Zimbabwe'' \<and>
   generate_production_by_country example_minerals ''COBALT'' =
     Some [(''DRC'', 130000), (''Zambia'', 5000)] \<and>
   ''COBALT'' \<notin> set (map mineral_name example_minerals)"
  by (simp add: generate_production_by_country_def search_minerals_def field_mismatch_def
        example_minerals_def example_record_def lower_def lower_char_def lower_table_def Let_def
        sorted_by_value_reversed_def)

lemma length_grouped_by_country: "length (grouped_by_country ms) = count_countries ms"
proof -
  have "length (grouped_by_country ms) = length (remdups (rev (map country ms)))"
    by (simp add: grouped_by_country_def)
  also have "\<dots> = card (set (rev (map country ms)))"
    by (rule length_remdups_card_conv)
  also have "\<dots> = card (set (map country ms))"
    by simp
  also have "\<dots> = length (remdups (map country ms))"
    by (rule length_remdups_card_conv[symmetric])
  also have "\<dots> = count_countries ms"
    by (simp add: count_countries_def get_unique_countries_def)
  finally show ?thesis .
qed

lemma slice_to_prefix: "prefix (slice_to xs limit) xs"
  by (simp add: slice_to_def take_is_prefix)

lemma slice_to_full: "slice_to xs (int (length xs)) = xs"
  by (simp add: slice_to_def)

lemma slice_to_length: "0 \<le> limit \<Longrightarrow> int (length (slice_to xs limit)) \<le> limit"
  by (simp add: slice_to_def)

lemma sorted_wrt_slice_to: "sorted_wrt R xs \<Longrightarrow> sorted_wrt R (slice_to xs limit)"
  by (simp add: slice_to_def sorted_wrt_take)

text \<open>
  Claim C6. \<open>generate_top_producers\<close> sums the production volume per country over all
  records and sorts the totals in descending order. For every limit that is a count
  (an integer that is not negative) the result has at most \<open>limit\<close> entries, is sorted
  descending by total and is a prefix of the result for the limit \<open>count_countries\<close>,
  which is the whole ranking.
\<close>

theorem top_producers_prefix_of_ranking:
  assumes "0 \<le> limit"
  shows
  "int (length (generate_top_producers all_minerals limit)) \<le> limit \<and>
   sorted_wrt (\<lambda>a b. snd b \<le> snd a) (generate_top_producers all_minerals limit) \<and>
   prefix (generate_top_producers all_minerals limit)
          (generate_top_producers all_minerals (int (count_countries all_minerals))) \<and>
   generate_top_producers all_minerals (int (count_countries all_minerals)) =
     sorted_by_value_reversed (grouped_by_country all_minerals)"
proof -
  let ?full = "sorted_by_value_reversed (grouped_by_country all_minerals)"
  have t: "generate_top_producers all_minerals l = slice_to ?full l" for l
    by (simp add: generate_top_producers_def aggregate_grouped)
  have len: "length ?full = count_countries all_minerals"
    by (simp add: sorted_by_value_reversed_def length_grouped_by_country)
  have full: "generate_top_producers all_minerals (int (count_countries all_minerals)) = ?full"
    unfolding t len[symmetric] by (rule slice_to_full)
  have a: "int (length (generate_top_producers all_minerals limit)) \<le> limit"
    unfolding t using assms by (rule slice_to_length)
  have b: "sorted_wrt (\<lambda>a b. snd b \<le> snd a) (generate_top_producers all_minerals limit)"
    unfolding t by (rule sorted_wrt_slice_to) (rule sorted_by_value_reversed_desc)
  have c: "prefix (generate_top_producers all_minerals limit)
          (generate_top_producers all_minerals (int (count_countries all_minerals)))"
    unfolding full unfolding t by (rule slice_to_prefix)
  from a b c full show ?thesis by (intro conjI)
qed

lemma example_ranking:
  "sorted_by_value_reversed (aggregate example_minerals []) =
     [(''DRC'', 1630000), (''Zambia'', 5000)]"
  by (simp add: example_minerals_def example_record_def sorted_by_value_reversed_def)

theorem top_producers_prefix_of_ranking_witness:
  "generate_top_producers example_minerals 1 = [(''DRC'', 1630000)] \<and>
   int (length (generate_top_producers example_minerals 1)) \<le> 1 \<and>
   count_countries example_minerals = 2 \<and>
   generate_top_producers example_minerals 2 = [(''DRC'', 1630000), (''Zambia'', 5000)] \<and>
   prefix (generate_top_producers example_minerals 1) (generate_top_producers example_minerals 2)"
proof -
  have 1: "generate_top_producers example_minerals 1 = [(''DRC'', 1630000)]"
    by (simp add: generate_top_producers_def example_ranking slice_to_def)
  have 2: "int (length (generate_top_producers example_minerals 1)) \<le> 1"
    using top_producers_prefix_of_ranking[of 1 example_minerals] by simp
  have 3: "count_countries example_minerals = 2"
    by (simp add: count_countries_def get_unique_countries_def example_minerals_def
          example_record_def)
  have 4: "generate_top_producers example_minerals 2 = [(''DRC'', 1630000), (''Zambia'', 5000)]"
    by (simp add: generate_top_producers_def example_ranking slice_to_def)
  have 5: "prefix (generate_top_producers example_minerals 1)
                  (generate_top_producers example_minerals 2)"
  proof -
    have "(0::int) \<le> 1"
      by simp
    from top_producers_prefix_of_ranking[OF this, of example_minerals]
    have "prefix (generate_top_producers example_minerals 1)
                 (generate_top_producers example_minerals (int (count_countries example_minerals)))"
      by blast
    then show ?thesis
      by (simp only: 3 of_nat_numeral)
  qed
  from 1 2 3 4 5 show ?thesis by (intro conjI)
qed

text \<open>The summary never raises: both fallible operations are guarded.\<close>

lemma get_summary_statistics_returns: "\<exists>s. get_summary_statistics ms = Inr s"
  by (cases ms; cases "aggregate ms []")
     (simp_all add: get_summary_statistics_def true_div_def max_by_value_def Let_def)

text \<open>
  Claim C7. On an empty record set \<open>get_summary_statistics\<close> returns a result, not an
  error: the average price is 0 and the top producer is \<open>'N/A'\<close> with volume 0 (and
  both totals are 0).
\<close>

theorem summary_statistics_empty:
  "get_summary_statistics [] =
     Inr \<lparr>total_production = 0, total_reserves = 0, avg_price = 0,
          top_producer = ''N/A'', top_producer_volume = 0\<rparr>"
  by (simp add: get_summary_statistics_def)

section \<open>Properties of the authentication module\<close>

lemma find_user_find:
  "find_user users name = List.find (\<lambda>u. lower (username u) = lower name) users"
  by (induction users) auto

lemma find_user_None:
  "find_user users name = None \<longleftrightarrow> (\<forall>u \<in> set users. lower (username u) \<noteq> lower name)"
  by (induction users) auto

lemma login_failure_message:
  assumes "\<not> success (login hash_password users name pw)"
  shows "login hash_password users name pw =
           \<lparr>success = False,
            message = (if name = [] \<or> pw = [] then ''Username and password required''
                       else ''Invalid username or password''),
            user_data = None\<rparr>"
  using assms by (auto simp: login_def split: option.splits if_splits)

text \<open>
  Claim C8, as amended. A login attempt with an empty username or an empty password
  fails with the message \<open>Username and password required\<close>, whatever the store holds.
  A login attempt with a non-empty username and a non-empty password fails with the one
  message \<open>Invalid username or password\<close> both when no stored user has that username
  (ignoring case) and when the first stored user with that username has a different
  password hash. So any two failed attempts with the same username and password return
  the same result on any two user stores: a failure never tells whether the username
  is known.
\<close>

theorem login_failure_hides_cause:
  "((name = [] \<or> pw = []) \<longrightarrow>
      login hash_password users name pw =
        \<lparr>success = False, message = ''Username and password required'', user_data = None\<rparr>) \<and>
   (name \<noteq> [] \<and> pw \<noteq> [] \<longrightarrow>
      ((\<forall>u \<in> set users. lower (username u) \<noteq> lower name) \<longrightarrow>
         login hash_password users name pw =
           \<lparr>success = False, message = ''Invalid username or password'', user_data = None\<rparr>) \<and>
      (\<forall>u. List.find (\<lambda>u. lower (username u) = lower name) users = Some u \<longrightarrow>
           hash_password pw \<noteq> password u \<longrightarrow>
         login hash_password users name pw =
           \<lparr>success = False, message = ''Invalid username or password'', user_data = None\<rparr>)) \<and>
   (\<not> success (login hash_password users name pw) \<longrightarrow>
    \<not> success (login hash_password users' name pw) \<longrightarrow>
      login hash_password users name pw = login hash_password users' name pw)"
proof -
  have a: "(name = [] \<or> pw = []) \<longrightarrow>
      login hash_password users name pw =
        \<lparr>success = False, message = ''Username and password required'', user_data = None\<rparr>"
    by (simp add: login_def)
  have b: "name \<noteq> [] \<and> pw \<noteq> [] \<longrightarrow>
      ((\<forall>u \<in> set users. lower (username u) \<noteq> lower name) \<longrightarrow>
         login hash_password users name pw =
           \<lparr>success = False, message = ''Invalid username or password'', user_data = None\<rparr>) \<and>
      (\<forall>u. List.find (\<lambda>u. lower (username u) = lower name) users = Some u \<longrightarrow>
           hash_password pw \<noteq> password u \<longrightarrow>
         login hash_password users name pw =
           \<lparr>success = False, message = ''Invalid username or password'', user_data = None\<rparr>)"
    using find_user_None[of users name] find_user_find[of users name]
    by (auto simp: login_def)
  have c: "\<not> success (login hash_password users name pw) \<longrightarrow>
    \<not> success (login hash_password users' name pw) \<longrightarrow>
      login hash_password users name pw = login hash_password users' name pw"
  proof (intro impI)
    assume f: "\<not> success (login hash_password users name pw)"
      and f': "\<not> success (login hash_password users' name pw)"
    show "login hash_password users name pw = login hash_password users' name pw"
      by (rule trans[OF login_failure_message[OF f] login_failure_message[OF f', symmetric]])
  qed
  from a b c show ?thesis by (intro conjI)
qed

theorem login_failure_hides_cause_witness:
  "login example_hash example_users ''ghost'' ''admin123'' =
     \<lparr>success = False, message = ''Invalid username or password'', user_data = None\<rparr> \<and>
   login example_hash example_users ''Admin'' ''wrongpass'' =
     \<lparr>success = False, message = ''Invalid username or password'', user_data = None\<rparr> \<and>
   login example_hash example_users ''admin'' [] =
     \<lparr>success = False, message = ''Username and password required'', user_data = None\<rparr> \<and>
   success (login example_hash example_users ''Admin'' ''admin123'')"
proof -
  have u: "\<forall>u \<in> set example_users. lower (username u) \<noteq> lower ''ghost''"
    by (simp add: example_users_def lower_def lower_char_def lower_table_def)
  have k: "List.find (\<lambda>u. lower (username u) = lower ''Admin'') example_users =
           Some (hd example_users)"
    by (simp add: example_users_def lower_def lower_char_def lower_table_def)
  have w: "example_hash ''wrongpass'' \<noteq> password (hd example_users)"
    by (simp add: example_users_def example_hash_def)
  have 1: "login example_hash example_users ''ghost'' ''admin123'' =
     \<lparr>success = False, message = ''Invalid username or password'', user_data = None\<rparr>"
    using login_failure_hides_cause[of "''ghost''" "''admin123''" example_hash example_users "[]"] u
    by simp
  have 2: "login example_hash example_users ''Admin'' ''wrongpass'' =
     \<lparr>success = False, message = ''Invalid username or password'', user_data = None\<rparr>"
    using login_failure_hides_cause[of "''Admin''" "''wrongpass''" example_hash example_users "[]"] k w
    by simp
  have 3: "login example_hash example_users ''admin'' [] =
     \<lparr>success = False, message = ''Username and password required'', user_data = None\<rparr>"
    using login_failure_hides_cause[of "''admin''" "[]" example_hash example_users "[]"]
    by simp
  have 4: "success (login example_hash example_users ''Admin'' ''admin123'')"
    by (simp add: login_def example_users_def example_hash_def lower_def lower_char_def
          lower_table_def)
  from 1 2 3 4 show ?thesis by (intro conjI)
qed

theorem login_generic_message_counterexample:
  "\<not> username_exists example_users ''ghost'' \<and>
   \<not> success (login example_hash example_users ''ghost'' []) \<and>
   message (login example_hash example_users ''ghost'' []) = ''Username and password required'' \<and>
   message (login example_hash example_users ''ghost'' []) \<noteq> ''Invalid username or password''"
  by (simp add: login_def example_users_def lower_def lower_char_def lower_table_def)

text \<open>
  Claim C9, as amended. A successful registration appends exactly one account, whose
  role is the role the caller supplied, whatever string that is, and \<open>Researcher\<close> when
  no role is supplied. The known roles are \<open>Administrator\<close>, \<open>Investor\<close> and
  \<open>Researcher\<close>; \<open>Researcher\<close> has none of the permissions \<open>edit_all\<close>, \<open>delete_all\<close>
  and \<open>manage_users\<close>, and a role outside the known set has no permission at all.
\<close>

theorem register_stores_supplied_role:
  "(success (fst (register hash_password new_id stamp users name pw mail role_arg)) \<longrightarrow>
      snd (register hash_password new_id stamp users name pw mail role_arg) =
        users @ [\<lparr>user_id = new_id,
                   username = name,
                   password = hash_password pw,
                   email = mail,
                   role = (case role_arg of None \<Rightarrow> ''Researcher'' | Some r \<Rightarrow> r),
                   user_created_at = stamp\<rparr>]) \<and>
   (success (fst (register hash_password new_id stamp users name pw mail None)) \<longrightarrow>
      role (last (snd (register hash_password new_id stamp users name pw mail None))) =
        ''Researcher'') \<and>
   (\<forall>r. success (fst (register hash_password new_id stamp users name pw mail (Some r))) \<longrightarrow>
      role (last (snd (register hash_password new_id stamp users name pw mail (Some r)))) = r) \<and>
   map fst role_permissions = [''Administrator'', ''Investor'', ''Researcher''] \<and>
   \<not> check_permission ''Researcher'' ''edit_all'' \<and>
   \<not> check_permission ''Researcher'' ''delete_all'' \<and>
   \<not> check_permission ''Researcher'' ''manage_users'' \<and>
   (role_nm \<notin> set (map fst role_permissions) \<longrightarrow> \<not> check_permission role_nm permission)"
proof -
  have a: "success (fst (register hash_password new_id stamp users name pw mail role_arg)) \<longrightarrow>
      snd (register hash_password new_id stamp users name pw mail role_arg) =
        users @ [\<lparr>user_id = new_id,
                   username = name,
                   password = hash_password pw,
                   email = mail,
                   role = (case role_arg of None \<Rightarrow> ''Researcher'' | Some r \<Rightarrow> r),
                   user_created_at = stamp\<rparr>]" for role_arg
    by (simp add: register_def Let_def)
  have b: "success (fst (register hash_password new_id stamp users name pw mail None)) \<longrightarrow>
      role (last (snd (register hash_password new_id stamp users name pw mail None))) =
        ''Researcher''"
    using a[of None] by auto
  have c: "\<forall>r. success (fst (register hash_password new_id stamp users name pw mail (Some r))) \<longrightarrow>
      role (last (snd (register hash_password new_id stamp users name pw mail (Some r)))) = r"
  proof (intro allI impI)
    fix r
    assume "success (fst (register hash_password new_id stamp users name pw mail (Some r)))"
    with a[of "Some r"] show
      "role (last (snd (register hash_password new_id stamp users name pw mail (Some r)))) = r"
      by simp
  qed
  have d: "map fst role_permissions = [''Administrator'', ''Investor'', ''Researcher'']"
    by (simp add: role_permissions_def)
  have e1: "\<not> check_permission ''Researcher'' ''edit_all''"
    by (simp add: check_permission_def role_permissions_def)
  have e2: "\<not> check_permission ''Researcher'' ''delete_all''"
    by (simp add: check_permission_def role_permissions_def)
  have e3: "\<not> check_permission ''Researcher'' ''manage_users''"
    by (simp add: check_permission_def role_permissions_def)
  have f: "role_nm \<notin> set (map fst role_permissions) \<longrightarrow> \<not> check_permission role_nm permission"
  proof
    assume "role_nm \<notin> set (map fst role_permissions)"
    then have "map_of role_permissions role_nm = None"
      by (simp add: map_of_eq_None_iff)
    then show "\<not> check_permission role_nm permission"
      by (simp add: check_permission_def)
  qed
  from a[of role_arg] b c d e1 e2 e3 f show ?thesis by (intro conjI)
qed

theorem register_stores_supplied_role_witness:
  "success (fst (register example_hash ''u-2'' ''2024-01-02T00:00:00'' example_users
                   ''eve'' ''secret'' ''eve@example.com'' None)) \<and>
   role (last (snd (register example_hash ''u-2'' ''2024-01-02T00:00:00'' example_users
                      ''eve'' ''secret'' ''eve@example.com'' None))) = ''Researcher'' \<and>
   success (fst (register example_hash ''u-2'' ''2024-01-02T00:00:00'' example_users
                   ''eve'' ''secret'' ''eve@example.com'' (Some ''Investor''))) \<and>
   role (last (snd (register example_hash ''u-2'' ''2024-01-02T00:00:00'' example_users
                      ''eve'' ''secret'' ''eve@example.com'' (Some ''Investor'')))) = ''Investor'' \<and>
   \<not> check_permission ''Superuser'' ''view_all''"
proof -
  have s: "success (fst (register example_hash ''u-2'' ''2024-01-02T00:00:00'' example_users
                   ''eve'' ''secret'' ''eve@example.com'' role_arg))" for role_arg
    by (simp add: register_def Let_def example_users_def lower_def lower_char_def lower_table_def)
  note t = register_stores_supplied_role
             [of example_hash "''u-2''" "''2024-01-02T00:00:00''" example_users
                 "''eve''" "''secret''" "''eve@example.com''" None "''Superuser''" "''view_all''"]
  have 1: "role (last (snd (register example_hash ''u-2'' ''2024-01-02T00:00:00'' example_users
                      ''eve'' ''secret'' ''eve@example.com'' None))) = ''Researcher''"
    using t s[of None] by blast
  have 2: "role (last (snd (register example_hash ''u-2'' ''2024-01-02T00:00:00'' example_users
                      ''eve'' ''secret'' ''eve@example.com'' (Some ''Investor'')))) = ''Investor''"
    using t s[of "Some ''Investor''"] by blast
  have n: "''Superuser'' \<notin> set (map fst role_permissions)"
    by (simp add: role_permissions_def)
  have 3: "\<not> check_permission ''Superuser'' ''view_all''"
    using t n by blast
  from s[of None] 1 s[of "Some ''Investor''"] 2 3 show ?thesis by (intro conjI)
qed

theorem register_role_known_counterexample:
  "success (fst (register example_hash ''u-2'' ''2024-01-02T00:00:00'' example_users
                   ''eve'' ''secret'' ''eve@example.com'' (Some ''Superuser''))) \<and>
   role (last (snd (register example_hash ''u-2'' ''2024-01-02T00:00:00'' example_users
                      ''eve'' ''secret'' ''eve@example.com'' (Some ''Superuser'')))) = ''Superuser'' \<and>
   ''Superuser'' \<notin> set (map fst role_permissions)"
  by (simp add: register_def Let_def example_users_def lower_def lower_char_def lower_table_def
        role_permissions_def)

lemma username_exists_iff:
  "username_exists users name \<longleftrightarrow> (\<exists>u \<in> set users. lower (username u) = lower name)"
  by (induction users) auto

text \<open>
  Claim C10. A call of \<open>register\<close> fails exactly when a required field (username,
  password or email) is missing or the username equals, ignoring case, the username of
  a stored user; and whenever the call fails, the stored users are exactly what they
  were before the call.
\<close>

theorem register_failure_keeps_users:
  "(\<not> success (fst (register hash_password new_id stamp users name pw mail role_arg)) \<longleftrightarrow>
      (name = [] \<or> pw = [] \<or> mail = [] \<or>
       (\<exists>u \<in> set users. lower (username u) = lower name))) \<and>
   (\<not> success (fst (register hash_password new_id stamp users name pw mail role_arg)) \<longrightarrow>
      snd (register hash_password new_id stamp users name pw mail role_arg) = users)"
  by (simp add: register_def Let_def username_exists_iff)

theorem register_failure_keeps_users_witness:
  "\<not> success (fst (register example_hash ''u-2'' ''2024-01-02T00:00:00'' example_users
                     ''Admin'' ''secret'' ''a@example.com'' None)) \<and>
   snd (register example_hash ''u-2'' ''2024-01-02T00:00:00'' example_users
          ''Admin'' ''secret'' ''a@example.com'' None) = example_users"
  using register_failure_keeps_users
          [of example_hash "''u-2''" "''2024-01-02T00:00:00''" example_users
              "''Admin''" "''secret''" "''a@example.com''" None]
  by (simp add: example_users_def lower_def lower_char_def lower_table_def)

end
